theory Spec2Isabelle
  imports Complex_Main "HOL-Library.Monad_Syntax"
begin

section \<open>Python values\<close>

text \<open>
  A Python \<open>str\<close> is a sequence of Unicode code points, so it is modelled as a list of
  natural numbers. \<open>py\<close> turns an ASCII literal into such a list; labels outside ASCII
  are written as their code points.
\<close>

type_synonym pystr = "nat list"

definition py :: "string \<Rightarrow> pystr" where
  "py s = map of_char s"

text \<open>\<open>s.startswith(p)\<close>, \<open>s.endswith(p)\<close> and the substring test \<open>p in s\<close>.\<close>

fun startswith :: "'a list \<Rightarrow> 'a list \<Rightarrow> bool" where
  "startswith s [] = True"
| "startswith [] (p # ps) = False"
| "startswith (c # cs) (p # ps) = (c = p \<and> startswith cs ps)"

definition endswith :: "'a list \<Rightarrow> 'a list \<Rightarrow> bool" where
  "endswith s p = startswith (rev s) (rev p)"

fun str_in :: "'a list \<Rightarrow> 'a list \<Rightarrow> bool" where
  "str_in p [] = (p = [])"
| "str_in p (c # cs) = (startswith (c # cs) p \<or> str_in p cs)"

text \<open>
  The values \<open>response.json()\<close> can return. A dict is the association list of its items
  (keys distinct, looked up with \<open>map_of\<close>). A finite float is the rational it denotes;
  \<open>JNaN\<close> and \<open>JInfinity\<close> (True for the negative one) are the floats the decoder makes of
  \<open>NaN\<close>, \<open>Infinity\<close> and \<open>-Infinity\<close>.
\<close>

datatype json =
    JNull
  | JBool bool
  | JInt int
  | JFloat rat
  | JNaN
  | JInfinity bool
  | JStr pystr
  | JList "json list"
  | JDict "(pystr \<times> json) list"

text \<open>
  The operations the fetchers apply to such a value. Each returns \<open>None\<close> where Python
  raises (KeyError, TypeError, AttributeError): every caller catches all of them alike.
\<close>

text \<open>\<open>v[k]\<close> with a string key: only a dict accepts it.\<close>

fun subscript :: "json \<Rightarrow> pystr \<Rightarrow> json option" where
  "subscript (JDict kvs) k = map_of kvs k"
| "subscript v k = None"

text \<open>\<open>k in v\<close> with a string \<open>k\<close>: a key of a dict, an element of a list, a substring of
  a string; a number, a boolean and \<open>None\<close> are not iterable.\<close>

fun py_in :: "pystr \<Rightarrow> json \<Rightarrow> bool option" where
  "py_in k (JDict kvs) = Some (map_of kvs k \<noteq> None)"
| "py_in k (JList xs) = Some (JStr k \<in> set xs)"
| "py_in k (JStr s) = Some (str_in k s)"
| "py_in k v = None"

text \<open>\<open>for element in v\<close>: the elements of a list, the keys of a dict, the characters of
  a string.\<close>

fun py_iter :: "json \<Rightarrow> json list option" where
  "py_iter (JList xs) = Some xs"
| "py_iter (JDict kvs) = Some (map JStr (remdups (map fst kvs)))"
| "py_iter (JStr s) = Some (map (\<lambda>c. JStr [c]) s)"
| "py_iter v = None"

text \<open>\<open>v.get(k, d)\<close>: only a dict has the method.\<close>

fun dict_get :: "json \<Rightarrow> pystr \<Rightarrow> json \<Rightarrow> json option" where
  "dict_get (JDict kvs) k d = Some (case map_of kvs k of None \<Rightarrow> d | Some v \<Rightarrow> v)"
| "dict_get v k d = None"

text \<open>
  \<open>v.lower()\<close>: only a string has the method. \<open>str.lower\<close> itself works from the Unicode
  tables of the Python runtime, which are no part of this program: it is the parameter
  \<open>lower\<close> of the model. \<open>ascii_lower\<close> is what it does on ASCII text.
\<close>

fun str_lower :: "(pystr \<Rightarrow> pystr) \<Rightarrow> json \<Rightarrow> pystr option" where
  "str_lower lower (JStr s) = Some (lower s)"
| "str_lower lower v = None"

definition ascii_lower :: "pystr \<Rightarrow> pystr" where
  "ascii_lower s = map (\<lambda>c. if 65 \<le> c \<and> c \<le> 90 then c + 32 else c) s"

section \<open>Exchange rate and weather\<close>

text \<open>
  \<open>resp\<close> is the outcome of \<open>requests.get(url).json()\<close>: the exception it raised, of
  whatever kind, or the value it returned.
\<close>

definition get_exchange_rate :: "'e + json \<Rightarrow> json" where
  "get_exchange_rate resp =
     (case resp of
        Inl e \<Rightarrow> JFloat 1450
      | Inr data \<Rightarrow>
          (case do { rates \<leftarrow> subscript data (py ''rates''); subscript rates (py ''KRW'') } of
             None \<Rightarrow> JFloat 1450
           | Some rate \<Rightarrow> rate))"

definition get_weather :: "'e + json \<Rightarrow> json" where
  "get_weather resp =
     (case resp of
        Inl e \<Rightarrow> JDict [(py ''temperature'', JFloat 15), (py ''weathercode'', JInt 0)]
      | Inr data \<Rightarrow>
          (case subscript data (py ''current_weather'') of
             None \<Rightarrow> JDict [(py ''temperature'', JFloat 15), (py ''weathercode'', JInt 0)]
           | Some w \<Rightarrow> w))"

section \<open>Places\<close>

text \<open>
  The labels of \<open>place_type\<close> and the sentinel of the filter, as code points, named by
  their Korean reading: HANSIK is Korean food, YANGSIK Western food, ASIAN Asian, CAFE
  cafe, ILBAN_GITA General/Other, GITA Other (the label of a place that is no restaurant)
  and JEONCHE All (the sentinel).
\<close>

definition HANSIK :: pystr where
  "HANSIK = [0xD55C, 0xC2DD]"

definition YANGSIK :: pystr where
  "YANGSIK = [0xC591, 0xC2DD]"

definition ASIAN :: pystr where
  "ASIAN = [0xC544, 0xC2DC, 0xC548]"

definition CAFE :: pystr where
  "CAFE = [0xCE74, 0xD398]"

definition ILBAN_GITA :: pystr where
  "ILBAN_GITA = [0xC77C, 0xBC18, 0x2F, 0xAE30, 0xD0C0]"

definition GITA :: pystr where
  "GITA = [0xAE30, 0xD0C0]"

definition JEONCHE :: pystr where
  "JEONCHE = [0xC804, 0xCCB4]"

text \<open>The \<open>if\<close>/\<open>elif\<close> chain on \<open>category\<close>; \<open>None\<close> is its \<open>else: return []\<close>.\<close>

definition overpass_tag :: "pystr \<Rightarrow> pystr option" where
  "overpass_tag category =
     (if category = py ''restaurant'' then Some (py ''[\"amenity\"=\"restaurant\"]'')
      else if category = py ''hotel'' then Some (py ''[\"tourism\"=\"hotel\"]'')
      else if category = py ''tourism''
        then Some (py ''[\"tourism\"~\"attraction|museum|artwork|viewpoint\"]'')
      else None)"

text \<open>The Overpass query: the values the f-string puts into its fixed text.\<close>

record overpass_query =
  q_tag :: pystr
  q_radius_m :: json
  q_lat :: json
  q_lng :: json

text \<open>The dict appended to \<open>results\<close>.\<close>

record osm_place =
  name :: json
  lat :: json
  lng :: json
  type :: json
  cuisine_type :: json
  raw_cuisine :: json

text \<open>\<open>place_type\<close> as the loop body computes it from \<open>category\<close> and \<open>cuisine\<close>.\<close>

definition place_type :: "pystr \<Rightarrow> pystr \<Rightarrow> pystr" where
  "place_type category cuisine =
     (if category = py ''restaurant'' then
        (if str_in (py ''korean'') cuisine then HANSIK
         else if list_ex (\<lambda>x. str_in x cuisine)
                   (map py [''burger'', ''pizza'', ''italian'', ''french'', ''german'',
                            ''american'', ''steak'']) then YANGSIK
         else if list_ex (\<lambda>x. str_in x cuisine)
                   (map py [''chinese'', ''vietnamese'', ''thai'', ''japanese'', ''sushi'',
                            ''asian'', ''indian'']) then ASIAN
         else if list_ex (\<lambda>x. str_in x cuisine)
                   (map py [''coffee'', ''cafe'', ''cake'']) then CAFE
         else ILBAN_GITA)
      else GITA)"

text \<open>
  \<open>cuisine_filter\<close> is \<open>None\<close> (the default) or the list of the selected labels.
  \<open>filter_active\<close> is the test \<open>cuisine_filter and "JEONCHE" not in cuisine_filter\<close>, where
  \<open>None\<close> and the empty list are falsy; \<open>filtered_out\<close> adds the inner test
  \<open>place_type not in cuisine_filter\<close>, which leads to \<open>continue\<close>.
\<close>

fun filter_active :: "pystr list option \<Rightarrow> bool" where
  "filter_active None = False"
| "filter_active (Some f) = (f \<noteq> [] \<and> JEONCHE \<notin> set f)"

fun filtered_out :: "pystr list option \<Rightarrow> pystr \<Rightarrow> bool" where
  "filtered_out None pt = False"
| "filtered_out (Some f) pt = (filter_active (Some f) \<and> pt \<notin> set f)"

text \<open>
  One turn of the loop over \<open>data['elements']\<close>. The outer \<open>None\<close> is an exception; inside,
  \<open>None\<close> is an element that is passed over and \<open>Some p\<close> the dict that is appended.
\<close>

definition element_step ::
  "(pystr \<Rightarrow> pystr) \<Rightarrow> pystr \<Rightarrow> pystr list option \<Rightarrow> json \<Rightarrow> osm_place option option" where
  "element_step lower category cuisine_filter element =
     do {
       has_tags \<leftarrow> py_in (py ''tags'') element;
       if \<not> has_tags then Some None
       else do {
         tags \<leftarrow> subscript element (py ''tags'');
         has_name \<leftarrow> py_in (py ''name'') tags;
         if \<not> has_name then Some None
         else do {
           c \<leftarrow> dict_get tags (py ''cuisine'') (JStr (py ''general''));
           cuisine \<leftarrow> str_lower lower c;
           nm \<leftarrow> subscript tags (py ''name'');
           if category = py ''restaurant'' \<and>
              filtered_out cuisine_filter (place_type category cuisine)
           then Some None
           else do {
             la \<leftarrow> subscript element (py ''lat'');
             lo \<leftarrow> subscript element (py ''lon'');
             Some (Some \<lparr>name = nm, lat = la, lng = lo, type = JStr category,
                         cuisine_type = JStr (place_type category cuisine),
                         raw_cuisine = JStr cuisine\<rparr>)
           }
         }
       }
     }"

text \<open>The loop, with \<open>results\<close> as it grows.\<close>

fun collect ::
  "(pystr \<Rightarrow> pystr) \<Rightarrow> pystr \<Rightarrow> pystr list option \<Rightarrow> osm_place list \<Rightarrow> json list
     \<Rightarrow> osm_place list option" where
  "collect lower category cuisine_filter results [] = Some results"
| "collect lower category cuisine_filter results (element # elements) =
     do {
       r \<leftarrow> element_step lower category cuisine_filter element;
       collect lower category cuisine_filter
         (case r of None \<Rightarrow> results | Some p \<Rightarrow> results @ [p]) elements
     }"

text \<open>The body of the \<open>try\<close> once the response is there.\<close>

definition places_of_response ::
  "(pystr \<Rightarrow> pystr) \<Rightarrow> pystr \<Rightarrow> pystr list option \<Rightarrow> json \<Rightarrow> osm_place list option" where
  "places_of_response lower category cuisine_filter data =
     do {
       elements \<leftarrow> subscript data (py ''elements'');
       xs \<leftarrow> py_iter elements;
       collect lower category cuisine_filter [] xs
     }"

text \<open>
  \<open>http\<close> answers a query as \<open>requests.get\<close> and \<open>response.json()\<close> do: with the exception
  they raise (a connection error, a timeout, a body that is not JSON: all of them
  subclasses of \<open>Exception\<close>, which the \<open>except\<close> clause catches) or with a value. The
  function returns its result together with the queries it has sent.
\<close>

definition get_osm_places ::
  "(pystr \<Rightarrow> pystr) \<Rightarrow> (overpass_query \<Rightarrow> 'e + json) \<Rightarrow> pystr \<Rightarrow> json \<Rightarrow> json \<Rightarrow> json
     \<Rightarrow> pystr list option \<Rightarrow> osm_place list \<times> overpass_query list" where
  "get_osm_places lower http category la lo radius_m cuisine_filter =
     (case overpass_tag category of
        None \<Rightarrow> ([], [])
      | Some tag \<Rightarrow>
          (let query = \<lparr>q_tag = tag, q_radius_m = radius_m, q_lat = la, q_lng = lo\<rparr> in
           (case http query of
              Inl e \<Rightarrow> []
            | Inr data \<Rightarrow>
                (case places_of_response lower category cuisine_filter data of
                   None \<Rightarrow> []
                 | Some results \<Rightarrow> results),
            [query])))"

text \<open>A response of the Overpass server and the dicts built from it, for the examples.\<close>

definition example_element :: "string \<Rightarrow> string \<Rightarrow> json" where
  "example_element nm cuisine =
     JDict [(py ''type'', JStr (py ''node'')), (py ''lat'', JFloat 52), (py ''lon'', JFloat 13),
            (py ''tags'', JDict [(py ''name'', JStr (py nm)), (py ''cuisine'', JStr (py cuisine))])]"

definition example_response :: json where
  "example_response =
     JDict [(py ''version'', JFloat (6 / 10)),
            (py ''elements'',
             JList [example_element ''Arirang'' ''Korean;Pizza'',
                    example_element ''Luigi'' ''pizza'',
                    JDict [(py ''type'', JStr (py ''node''))]])]"

definition example_place :: "string \<Rightarrow> string \<Rightarrow> pystr \<Rightarrow> string \<Rightarrow> osm_place" where
  "example_place category nm pt cuisine =
     \<lparr>name = JStr (py nm), lat = JFloat 52, lng = JFloat 13, type = JStr (py category),
      cuisine_type = JStr pt, raw_cuisine = JStr (py cuisine)\<rparr>"

section \<open>Crime statistics\<close>

text \<open>
  A pandas DataFrame: the row labels and the columns, each a header with its values. A
  column that \<open>read_csv\<close> leaves as strings has dtype object and holds strings and NaN
  (\<open>None\<close>); otherwise it is a column of integers, of floats (with NaN) or of booleans. In
  a frame all columns are as long as the index.
\<close>

datatype series =
    ObjectCol "pystr option list"
  | Int64Col "int list"
  | Float64Col "rat option list"
  | BoolCol "bool list"

record frame =
  index :: "nat list"
  columns :: "(pystr \<times> series) list"

text \<open>\<open>pd.DataFrame()\<close>.\<close>

definition empty_frame :: frame where
  "empty_frame = \<lparr>index = [], columns = []\<rparr>"

text \<open>\<open>str.isspace\<close> on one code point, \<open>s.strip()\<close> and \<open>s.replace('\n', '')\<close>.\<close>

definition is_space :: "nat \<Rightarrow> bool" where
  "is_space c \<longleftrightarrow>
     (9 \<le> c \<and> c \<le> 13) \<or> (28 \<le> c \<and> c \<le> 32) \<or> c = 0x85 \<or> c = 0xA0 \<or> c = 0x1680 \<or>
     (0x2000 \<le> c \<and> c \<le> 0x200A) \<or> c = 0x2028 \<or> c = 0x2029 \<or> c = 0x202F \<or>
     c = 0x205F \<or> c = 0x3000"

definition strip :: "pystr \<Rightarrow> pystr" where
  "strip s = rev (dropWhile is_space (rev (dropWhile is_space s)))"

definition remove_newlines :: "pystr \<Rightarrow> pystr" where
  "remove_newlines s = filter (\<lambda>c. c \<noteq> 10) s"

text \<open>The headers the loader looks for and the ones it gives.\<close>

definition LOR_KEY :: pystr where
  "LOR_KEY = py ''LOR-Schl'' @ [0xFC] @ py ''ssel (Bezirksregion)''"

definition BEZEICHNUNG :: pystr where
  "BEZEICHNUNG = py ''Bezeichnung (Bezirksregion)''"

definition DISTRICT :: pystr where
  "DISTRICT = py ''District''"

definition TOTAL_CRIME :: pystr where
  "TOTAL_CRIME = py ''Total_Crime''"

text \<open>The text passed to \<open>st.error\<close> when no total column is found.\<close>

definition NO_TOTAL_COLUMN :: pystr where
  "NO_TOTAL_COLUMN =
     py ''CSV'' @ [0xC5D0, 0xC11C, 0x20, 0xBC94, 0xC8C4, 0x20, 0xCD1D, 0xACC4, 0x20, 0xCEEC,
                   0xB7FC, 0xC744, 0x20, 0xCC3E, 0xC744, 0x20, 0xC218, 0x20, 0xC5C6, 0xC2B5,
                   0xB2C8, 0xB2E4, 0x2E]"

text \<open>\<open>df.columns = [c.replace('\n', '').strip() for c in df.columns]\<close>.\<close>

definition normalize_columns :: "frame \<Rightarrow> frame" where
  "normalize_columns df =
     df\<lparr>columns := map (\<lambda>(c, s). (strip (remove_newlines c), s)) (columns df)\<rparr>"

text \<open>\<open>[c for c in df.columns if 'Straftaten' in c and 'insgesamt' in c]\<close>.\<close>

definition total_cols :: "frame \<Rightarrow> pystr list" where
  "total_cols df =
     filter (\<lambda>c. str_in (py ''Straftaten'') c \<and> str_in (py ''insgesamt'') c)
       (map fst (columns df))"

text \<open>
  \<open>df[key].str\<close>. \<open>df[key]\<close> raises KeyError when no column has the header; it is a DataFrame,
  which has no \<open>.str\<close>, when several have it; and \<open>.str\<close> raises AttributeError on a column
  that does not hold strings. \<open>None\<close> stands for all three.
\<close>

definition getitem_str :: "frame \<Rightarrow> pystr \<Rightarrow> pystr option list option" where
  "getitem_str df key =
     (case filter (\<lambda>(c, s). c = key) (columns df) of
        [(c, ObjectCol vs)] \<Rightarrow> Some vs
      | _ \<Rightarrow> None)"

text \<open>\<open>.str.endswith('0000', na=False)\<close>: NaN gives False.\<close>

definition str_endswith :: "pystr option list \<Rightarrow> pystr \<Rightarrow> bool list" where
  "str_endswith vs suffix =
     map (\<lambda>v. case v of None \<Rightarrow> False | Some s \<Rightarrow> endswith s suffix) vs"

text \<open>\<open>df[keep]\<close> with a boolean Series \<open>keep\<close>: the rows at which it is True.\<close>

definition select :: "bool list \<Rightarrow> 'a list \<Rightarrow> 'a list" where
  "select keep xs = map snd (filter fst (zip keep xs))"

fun series_select :: "bool list \<Rightarrow> series \<Rightarrow> series" where
  "series_select keep (ObjectCol vs) = ObjectCol (select keep vs)"
| "series_select keep (Int64Col vs) = Int64Col (select keep vs)"
| "series_select keep (Float64Col vs) = Float64Col (select keep vs)"
| "series_select keep (BoolCol vs) = BoolCol (select keep vs)"

definition boolean_index :: "frame \<Rightarrow> bool list \<Rightarrow> frame" where
  "boolean_index df keep =
     \<lparr>index = select keep (index df),
      columns = map (\<lambda>(c, s). (c, series_select keep s)) (columns df)\<rparr>"

text \<open>
  \<open>.rename(columns={'Bezeichnung (Bezirksregion)': 'District', total_col: 'Total_Crime'})\<close>;
  in a dict literal the later of two equal keys wins.
\<close>

definition rename_columns :: "frame \<Rightarrow> pystr \<Rightarrow> frame" where
  "rename_columns df total_col =
     df\<lparr>columns :=
          map (\<lambda>(c, s). (if c = total_col then TOTAL_CRIME
                          else if c = BEZEICHNUNG then DISTRICT else c, s)) (columns df)\<rparr>"

text \<open>\<open>df[key] = values\<close> where the column exists.\<close>

definition setitem :: "frame \<Rightarrow> pystr \<Rightarrow> series \<Rightarrow> frame" where
  "setitem df key values =
     df\<lparr>columns := map (\<lambda>(c, s). (c, if c = key then values else s)) (columns df)\<rparr>"

text \<open>\<open>df[keys]\<close> with a list of headers: for each key in turn the columns that have it;
  KeyError when a key has none.\<close>

definition select_columns :: "frame \<Rightarrow> pystr list \<Rightarrow> frame option" where
  "select_columns df keys =
     (if list_all (\<lambda>k. k \<in> fst ` set (columns df)) keys
      then Some (df\<lparr>columns := concat (map (\<lambda>k. filter (\<lambda>(c, s). c = k) (columns df)) keys)\<rparr>)
      else None)"

text \<open>
  The body of the \<open>try\<close> once \<open>pd.read_csv\<close> has returned \<open>df\<close>. The outer \<open>None\<close> is an
  exception; inside, \<open>None\<close> is the early return after \<open>st.error\<close> and \<open>Some out\<close> the frame
  returned at the end.
\<close>

definition process_crime_data :: "frame \<Rightarrow> frame option option" where
  "process_crime_data df0 =
     (let df = normalize_columns df0 in
      case total_cols df of
        [] \<Rightarrow> Some None
      | total_col # others \<Rightarrow>
          do {
            codes \<leftarrow> getitem_str df LOR_KEY;
            let df_district =
              rename_columns (boolean_index df (str_endswith codes (py ''0000''))) total_col;
            names \<leftarrow> getitem_str df_district DISTRICT;
            let df_district =
              setitem df_district DISTRICT (ObjectCol (map (map_option strip) names));
            out \<leftarrow> select_columns df_district [DISTRICT, TOTAL_CRIME];
            Some (Some out)
          })"

text \<open>
  \<open>src\<close> is the outcome of \<open>pd.read_csv\<close>: the exception it raised (no such file, a file
  that does not parse) or the frame it read. The function returns its result together
  with the messages it has shown with \<open>st.error\<close>.
\<close>

definition load_and_process_crime_data :: "'e + frame \<Rightarrow> frame \<times> pystr list" where
  "load_and_process_crime_data src =
     (case src of
        Inl e \<Rightarrow> (empty_frame, [])
      | Inr df \<Rightarrow>
          (case process_crime_data df of
             None \<Rightarrow> (empty_frame, [])
           | Some None \<Rightarrow> (empty_frame, [NO_TOTAL_COLUMN])
           | Some (Some out) \<Rightarrow> (out, [])))"

text \<open>A source of two rows, one of a district and one of a region inside it.\<close>

definition example_crime_frame :: frame where
  "example_crime_frame =
     \<lparr>index = [0, 1],
      columns =
        [(LOR_KEY, ObjectCol [Some (py ''010000''), Some (py ''011001'')]),
         (BEZEICHNUNG, ObjectCol [Some (py ''Mitte ''), Some (py ''Tiergarten'')]),
         (py ''Straftaten '' @ [10] @ py ''-insgesamt-'' @ [10], Int64Col [120, 40]),
         (py ''Raub'', Int64Col [7, 3])]\<rparr>"

text \<open>What the loader gives for it.\<close>

definition example_district_frame :: frame where
  "example_district_frame =
     \<lparr>index = [0],
      columns = [(DISTRICT, ObjectCol [Some (py ''Mitte'')]), (TOTAL_CRIME, Int64Col [120])]\<rparr>"

section \<open>Session state\<close>

text \<open>
  \<open>st.session_state\<close>: the reviews of each place (a dict of lists), the recommendations
  (a list of dicts with the keys place and desc), the chat messages (role and content),
  the centre of the map and the marker of the last search.
\<close>

record recommendation =
  place :: pystr
  desc :: pystr

record session_state =
  reviews :: "pystr \<rightharpoonup> pystr list"
  recommendations :: "recommendation list"
  messages :: "(pystr \<times> pystr) list"
  map_center :: json
  search_marker :: json

text \<open>\<open>xs.insert(i, x)\<close> and \<open>del xs[i]\<close> for an index that is not negative; \<open>del\<close> raises
  IndexError (\<open>None\<close>) out of range.\<close>

definition list_insert :: "'a list \<Rightarrow> nat \<Rightarrow> 'a \<Rightarrow> 'a list" where
  "list_insert xs i x = take i xs @ x # drop i xs"

definition list_del :: "'a list \<Rightarrow> nat \<Rightarrow> 'a list option" where
  "list_del xs i = (if i < length xs then Some (take i xs @ drop (Suc i) xs) else None)"

text \<open>
  The form of the recommendation board, when its button is pressed:
  \<open>st.session_state['recommendations'].insert(0, {"place": rec_place, "desc": rec_desc})\<close>.
\<close>

definition add_recommendation :: "session_state \<Rightarrow> pystr \<Rightarrow> pystr \<Rightarrow> session_state" where
  "add_recommendation st rec_place rec_desc =
     st\<lparr>recommendations :=
          list_insert (recommendations st) 0 \<lparr>place = rec_place, desc = rec_desc\<rparr>\<rparr>"

text \<open>
  The loop that shows the reviews of \<open>sel_place\<close>, each with its delete button. The
  button of position \<open>i\<close> has the key \<open>del_<sel_place>_<i>\<close> and returns True when it is the
  one that was pressed; \<open>pressed\<close> is that position. \<open>delete_button\<close> walks the list as
  \<open>enumerate\<close> does and gives the first position whose button returns True.
\<close>

fun delete_button :: "nat \<Rightarrow> nat \<Rightarrow> 'a list \<Rightarrow> nat option" where
  "delete_button pressed i [] = None"
| "delete_button pressed i (msg # msgs) =
     (if i = pressed then Some i else delete_button pressed (Suc i) msgs)"

text \<open>
  \<open>if st.session_state['reviews'][sel_place]: for i, msg in enumerate(...): if button:
  del st.session_state['reviews'][sel_place][i]; st.rerun()\<close>. The outer \<open>None\<close> is an
  exception that leaves the handler (KeyError, IndexError).
\<close>

definition delete_review :: "session_state \<Rightarrow> pystr \<Rightarrow> nat \<Rightarrow> session_state option" where
  "delete_review st sel_place pressed =
     do {
       msgs \<leftarrow> reviews st sel_place;
       if msgs = [] then Some st
       else
         (case delete_button pressed 0 msgs of
            None \<Rightarrow> Some st
          | Some i \<Rightarrow>
              do {
                msgs' \<leftarrow> list_del msgs i;
                Some (st\<lparr>reviews := (reviews st)(sel_place \<mapsto> msgs')\<rparr>)
              })
     }"

text \<open>A session with two reviews of one place and one recommendation.\<close>

definition example_state :: session_state where
  "example_state =
     \<lparr>reviews = [py ''Mauerpark'' \<mapsto> [py ''nice'', py ''busy'']],
      recommendations = [\<lparr>place = py ''Curry 36'', desc = py ''cheap''\<rparr>],
      messages = [],
      map_center = JList [JFloat (5252 / 100), JFloat (13405 / 1000)],
      search_marker = JNull\<rparr>"

section \<open>Strings\<close>

lemma py_eq_iff: "py a = py b \<longleftrightarrow> a = b"
  unfolding py_def by (simp add: inj_map_eq_map inj_on_def)

text \<open>The three tests on strings are what their names say.\<close>

lemma startswith_iff: "startswith s p \<longleftrightarrow> (\<exists>t. s = p @ t)"
  by (induction s p rule: startswith.induct) auto

lemma endswith_iff: "endswith s p \<longleftrightarrow> (\<exists>a. s = a @ p)"
  unfolding endswith_def startswith_iff
  by (metis rev_append rev_rev_ident)

lemma str_in_iff: "str_in p s \<longleftrightarrow> (\<exists>a b. s = a @ p @ b)"
proof (induction s)
  case Nil
  show ?case by auto
next
  case (Cons c cs)
  show ?case
  proof
    assume "str_in p (c # cs)"
    then consider "startswith (c # cs) p" | "str_in p cs" by auto
    then show "\<exists>a b. c # cs = a @ p @ b"
    proof cases
      case 1
      then obtain t where "c # cs = p @ t" by (auto simp: startswith_iff)
      then have "c # cs = [] @ p @ t" by simp
      then show ?thesis by blast
    next
      case 2
      then obtain a b where "cs = a @ p @ b" using Cons.IH by auto
      then have "c # cs = (c # a) @ p @ b" by simp
      then show ?thesis by blast
    qed
  next
    assume "\<exists>a b. c # cs = a @ p @ b"
    then obtain a b where ab: "c # cs = a @ p @ b" by blast
    show "str_in p (c # cs)"
    proof (cases a)
      case Nil
      with ab have "startswith (c # cs) p" unfolding startswith_iff by auto
      then show ?thesis by simp
    next
      case (Cons a0 as)
      with ab have "cs = as @ p @ b" by simp
      then show ?thesis using Cons.IH by auto
    qed
  qed
qed

text \<open>Lower-casing ASCII text keeps a substring a substring.\<close>

lemma ascii_lower_str_in: "str_in p s \<Longrightarrow> str_in (ascii_lower p) (ascii_lower s)"
proof -
  assume "str_in p s"
  then obtain a b where "s = a @ p @ b" unfolding str_in_iff by blast
  then have "ascii_lower s = ascii_lower a @ ascii_lower p @ ascii_lower b"
    by (simp add: ascii_lower_def)
  then show ?thesis unfolding str_in_iff by blast
qed

section \<open>The class of a place\<close>

lemma labels_distinct: "distinct [HANSIK, YANGSIK, ASIAN, CAFE, ILBAN_GITA, GITA, JEONCHE]"
  by (simp add: HANSIK_def YANGSIK_def ASIAN_def CAFE_def ILBAN_GITA_def GITA_def JEONCHE_def)

lemma place_type_restaurant:
  "place_type (py ''restaurant'') c \<in> {HANSIK, YANGSIK, ASIAN, CAFE, ILBAN_GITA}"
  unfolding place_type_def by simp

lemma place_type_other: "category \<noteq> py ''restaurant'' \<Longrightarrow> place_type category c = GITA"
  unfolding place_type_def by simp

text \<open>The test for \<open>korean\<close> comes first.\<close>

lemma place_type_korean_first:
  "str_in (py ''korean'') cuisine \<Longrightarrow> place_type (py ''restaurant'') cuisine = HANSIK"
  unfolding place_type_def by simp

text \<open>
  Claim C6. On every string, the empty one included, the classifier of a restaurant
  fetch returns one of five labels, which are pairwise different; the empty string is
  General/Other. The classifier is a function of the string alone.
\<close>

theorem place_type_total:
  "place_type (py ''restaurant'') cuisine \<in> {HANSIK, YANGSIK, ASIAN, CAFE, ILBAN_GITA} \<and>
   distinct [HANSIK, YANGSIK, ASIAN, CAFE, ILBAN_GITA] \<and>
   place_type (py ''restaurant'') [] = ILBAN_GITA"
proof -
  have "place_type (py ''restaurant'') [] = ILBAN_GITA"
    by (simp add: place_type_def py_def)
  with place_type_restaurant [of cuisine] labels_distinct show ?thesis by simp
qed

section \<open>The places fetch\<close>

text \<open>
  Claim C10. For a category other than restaurant, hotel and tourism the fetch returns
  the empty list and sends no query.
\<close>

theorem unknown_category_no_request:
  "category \<notin> {py ''restaurant'', py ''hotel'', py ''tourism''} \<Longrightarrow>
     get_osm_places lower http category la lo radius_m cuisine_filter = ([], [])"
  unfolding get_osm_places_def overpass_tag_def by simp

theorem unknown_category_no_request_witness:
  "py ''cafe'' \<notin> {py ''restaurant'', py ''hotel'', py ''tourism''} \<and>
   get_osm_places ascii_lower (\<lambda>q. (Inr example_response :: unit + json)) (py ''cafe'')
     (JFloat 52) (JFloat 13) (JInt 3000) (Some [HANSIK]) = ([], [])"
proof -
  have h: "py ''cafe'' \<notin> {py ''restaurant'', py ''hotel'', py ''tourism''}"
    by (simp add: py_eq_iff)
  from h unknown_category_no_request [OF h] show ?thesis by blast
qed

text \<open>What one turn of the loop appends, and how the filter changes it.\<close>

lemma element_step_Some:
  assumes "element_step lower category flt e = Some (Some p)"
  shows "\<exists>c. raw_cuisine p = JStr c \<and> cuisine_type p = JStr (place_type category c) \<and>
             type p = JStr category \<and>
             \<not> (category = py ''restaurant'' \<and> filtered_out flt (place_type category c))"
  using assms unfolding element_step_def
  by (auto split: bind_splits if_splits)

text \<open>
  The tag that is classified and stored is the lower-cased value of the key \<open>cuisine\<close>
  in the tags of the element; with the other keys there and no filter against it, the
  dict is built.
\<close>

lemma element_step_cuisine:
  assumes tags: "subscript element (py ''tags'') = Some tags"
    and raw: "subscript tags (py ''cuisine'') = Some (JStr raw)"
    and step: "element_step lower category cuisine_filter element = Some (Some p)"
  shows "raw_cuisine p = JStr (lower raw) \<and>
         cuisine_type p = JStr (place_type category (lower raw))"
proof -
  from tags obtain kvs where element: "element = JDict kvs" by (cases element) auto
  from raw obtain tvs where tvs: "tags = JDict tvs" by (cases tags) auto
  from raw tvs have get: "dict_get tags (py ''cuisine'') (JStr (py ''general'')) = Some (JStr raw)"
    by simp
  from step tags get show ?thesis
    unfolding element_step_def
    by (auto simp: element split: bind_splits if_splits)
qed

lemma element_step_builds:
  assumes tags: "subscript element (py ''tags'') = Some tags"
    and raw: "subscript tags (py ''cuisine'') = Some (JStr raw)"
    and nm: "subscript tags (py ''name'') = Some nm"
    and la: "subscript element (py ''lat'') = Some la"
    and lo: "subscript element (py ''lon'') = Some lo"
    and keep: "\<not> (category = py ''restaurant'' \<and>
                 filtered_out cuisine_filter (place_type category (lower raw)))"
  shows "element_step lower category cuisine_filter element =
           Some (Some \<lparr>name = nm, lat = la, lng = lo, type = JStr category,
                       cuisine_type = JStr (place_type category (lower raw)),
                       raw_cuisine = JStr (lower raw)\<rparr>)"
proof -
  from tags obtain kvs where element: "element = JDict kvs" by (cases element) auto
  from raw obtain tvs where tvs: "tags = JDict tvs" by (cases tags) auto
  from tags element have 1: "py_in (py ''tags'') element = Some True" by simp
  from nm tvs have 2: "py_in (py ''name'') tags = Some True" by simp
  from raw tvs have 3: "dict_get tags (py ''cuisine'') (JStr (py ''general'')) = Some (JStr raw)"
    by simp
  from 1 2 3 tags nm la lo keep show ?thesis
    unfolding element_step_def by simp
qed

lemma element_step_inactive:
  "\<not> filter_active flt \<Longrightarrow>
     element_step lower category flt e = element_step lower category None e"
  unfolding element_step_def by (cases flt) (auto cong: if_cong)

lemma element_step_not_restaurant:
  "category \<noteq> py ''restaurant'' \<Longrightarrow>
     element_step lower category flt e = element_step lower category None e"
  unfolding element_step_def by (simp cong: if_cong)

lemma element_step_filter:
  assumes "element_step lower (py ''restaurant'') None e = Some r" and "filter_active (Some f)"
  shows "element_step lower (py ''restaurant'') (Some f) e =
           Some (case r of None \<Rightarrow> None
                 | Some p \<Rightarrow> if cuisine_type p \<in> JStr ` set f then Some p else None)"
  using assms unfolding element_step_def
  by (auto split: bind_splits if_splits)

lemma collect_inactive:
  "\<not> filter_active flt \<Longrightarrow>
     collect lower category flt acc xs = collect lower category None acc xs"
  by (induction xs arbitrary: acc) (simp_all add: element_step_inactive [of flt])

lemma collect_not_restaurant:
  "category \<noteq> py ''restaurant'' \<Longrightarrow>
     collect lower category flt acc xs = collect lower category None acc xs"
  by (induction xs arbitrary: acc) (simp_all add: element_step_not_restaurant [of category _ flt])

lemma collect_filter:
  assumes "filter_active (Some f)"
    and "collect lower (py ''restaurant'') None acc xs = Some ps"
  shows "collect lower (py ''restaurant'') (Some f)
           (filter (\<lambda>p. cuisine_type p \<in> JStr ` set f) acc) xs =
         Some (filter (\<lambda>p. cuisine_type p \<in> JStr ` set f) ps)"
  using assms(2)
proof (induction xs arbitrary: acc)
  case Nil
  then show ?case by simp
next
  case (Cons x xs)
  from Cons.prems obtain r where
    r: "element_step lower (py ''restaurant'') None x = Some r" and
    rest: "collect lower (py ''restaurant'') None
             (case r of None \<Rightarrow> acc | Some p \<Rightarrow> acc @ [p]) xs = Some ps"
    by (auto split: bind_splits)
  note step = element_step_filter [OF r assms(1)]
  show ?case
  proof (cases r)
    case None
    with step rest Cons.IH [of acc] show ?thesis by simp
  next
    case (Some p)
    show ?thesis
    proof (cases "cuisine_type p \<in> JStr ` set f")
      case True
      with Some step rest Cons.IH [of "acc @ [p]"] show ?thesis by simp
    next
      case False
      with Some step rest Cons.IH [of "acc @ [p]"] show ?thesis by simp
    qed
  qed
qed

lemma collect_members:
  assumes "collect lower category flt acc xs = Some ps" and "p \<in> set ps"
  shows "p \<in> set acc \<or> (\<exists>e \<in> set xs. element_step lower category flt e = Some (Some p))"
  using assms
proof (induction xs arbitrary: acc)
  case Nil
  then show ?case by simp
next
  case (Cons x xs)
  from Cons.prems(1) obtain r where
    r: "element_step lower category flt x = Some r" and
    rest: "collect lower category flt (case r of None \<Rightarrow> acc | Some q \<Rightarrow> acc @ [q]) xs = Some ps"
    by (auto split: bind_splits)
  from Cons.IH [OF rest Cons.prems(2)] r show ?case
    by (cases r) auto
qed

lemma get_osm_places_members:
  assumes "p \<in> set (fst (get_osm_places lower http category la lo radius_m flt))"
  shows "\<exists>e. element_step lower category flt e = Some (Some p)"
proof -
  have "\<exists>data ps. places_of_response lower category flt data = Some ps \<and> p \<in> set ps"
  proof (cases "overpass_tag category")
    case None
    with assms show ?thesis by (simp add: get_osm_places_def)
  next
    case (Some tag)
    show ?thesis
    proof (cases "http \<lparr>q_tag = tag, q_radius_m = radius_m, q_lat = la, q_lng = lo\<rparr>")
      case (Inl e)
      with Some assms show ?thesis by (simp add: get_osm_places_def)
    next
      case (Inr data)
      with Some assms show ?thesis
        by (cases "places_of_response lower category flt data")
           (auto simp: get_osm_places_def)
    qed
  qed
  then obtain data ps where
    "places_of_response lower category flt data = Some ps" and "p \<in> set ps" by blast
  then obtain xs where "collect lower category flt [] xs = Some ps"
    unfolding places_of_response_def by (auto split: bind_splits)
  from collect_members [OF this \<open>p \<in> set ps\<close>] show ?thesis by auto
qed

lemma places_of_response_inactive:
  "\<not> filter_active flt \<Longrightarrow>
     places_of_response lower category flt data = places_of_response lower category None data"
proof -
  assume "\<not> filter_active flt"
  then have "collect lower category flt [] = collect lower category None []"
    by (intro ext collect_inactive)
  then show ?thesis unfolding places_of_response_def by simp
qed

lemma places_of_response_not_restaurant:
  "category \<noteq> py ''restaurant'' \<Longrightarrow>
     places_of_response lower category flt data = places_of_response lower category None data"
proof -
  assume "category \<noteq> py ''restaurant''"
  then have "collect lower category flt [] = collect lower category None []"
    by (intro ext collect_not_restaurant)
  then show ?thesis unfolding places_of_response_def by simp
qed

lemma places_of_response_filter:
  assumes "filter_active (Some f)"
    and "places_of_response lower (py ''restaurant'') None data = Some ps"
  shows "places_of_response lower (py ''restaurant'') (Some f) data =
           Some (filter (\<lambda>p. cuisine_type p \<in> JStr ` set f) ps)"
proof -
  from assms(2) obtain els xs where
    els: "subscript data (py ''elements'') = Some els" and xs: "py_iter els = Some xs" and
    c: "collect lower (py ''restaurant'') None [] xs = Some ps"
    unfolding places_of_response_def by (auto split: bind_splits)
  from collect_filter [OF assms(1) c] els xs show ?thesis
    unfolding places_of_response_def by simp
qed

lemma example_restaurants:
  "places_of_response ascii_lower (py ''restaurant'') None example_response =
     Some [example_place ''restaurant'' ''Arirang'' HANSIK ''korean;pizza'',
           example_place ''restaurant'' ''Luigi'' YANGSIK ''pizza'']"
  by (simp add: places_of_response_def example_response_def example_element_def
      example_place_def element_step_def place_type_def ascii_lower_def py_def)

lemma example_hotels:
  "places_of_response ascii_lower (py ''hotel'') None example_response =
     Some [example_place ''hotel'' ''Arirang'' GITA ''korean;pizza'',
           example_place ''hotel'' ''Luigi'' GITA ''pizza'']"
  by (simp add: places_of_response_def example_response_def example_element_def
      example_place_def element_step_def place_type_def ascii_lower_def py_def)


lemma get_osm_places_inactive:
  "\<not> filter_active flt \<Longrightarrow>
     get_osm_places lower http category la lo radius_m flt =
     get_osm_places lower http category la lo radius_m None"
proof -
  assume "\<not> filter_active flt"
  then have eq: "places_of_response lower category flt = places_of_response lower category None"
    by (intro ext places_of_response_inactive)
  show ?thesis unfolding get_osm_places_def eq by (rule refl)
qed

lemma get_osm_places_not_restaurant:
  "category \<noteq> py ''restaurant'' \<Longrightarrow>
     get_osm_places lower http category la lo radius_m flt =
     get_osm_places lower http category la lo radius_m None"
proof -
  assume "category \<noteq> py ''restaurant''"
  then have eq: "places_of_response lower category flt = places_of_response lower category None"
    by (intro ext places_of_response_not_restaurant)
  show ?thesis unfolding get_osm_places_def eq by (rule refl)
qed

lemma get_osm_places_in_filter:
  assumes "filter_active (Some f)"
    and "p \<in> set (fst (get_osm_places lower http (py ''restaurant'') la lo radius_m (Some f)))"
  shows "cuisine_type p \<in> JStr ` set f"
proof -
  from get_osm_places_members [OF assms(2)] obtain e where
    "element_step lower (py ''restaurant'') (Some f) e = Some (Some p)" by blast
  from element_step_Some [OF this] assms(1) show ?thesis by auto
qed

text \<open>The fetch on the example response.\<close>

lemma example_fetch:
  "overpass_tag category = Some tag \<Longrightarrow>
   fst (get_osm_places lower (\<lambda>q. (Inr data :: unit + json)) category la lo radius_m flt) =
     (case places_of_response lower category flt data of None \<Rightarrow> [] | Some results \<Rightarrow> results)"
  unfolding get_osm_places_def by simp

lemma overpass_tag_examples:
  "overpass_tag (py ''restaurant'') \<noteq> None" "overpass_tag (py ''hotel'') \<noteq> None"
  unfolding overpass_tag_def by (simp_all add: py_eq_iff)

lemma example_restaurants_hansik:
  "places_of_response ascii_lower (py ''restaurant'') (Some [HANSIK]) example_response =
     Some [example_place ''restaurant'' ''Arirang'' HANSIK ''korean;pizza'']"
  by (simp add: places_of_response_def example_response_def example_element_def
      example_place_def element_step_def place_type_def ascii_lower_def py_def
      HANSIK_def JEONCHE_def YANGSIK_def)

text \<open>
  Claim C1. In a restaurant fetch, an element whose cuisine tag contains \<open>korean\<close> once it
  is lower-cased gets the class Korean (the label HANSIK), whatever other keywords the
  tag contains: the dict built from it stores the lower-cased tag and HANSIK, it is built
  whenever the element has its name and coordinates and the filter does not exclude
  HANSIK, and every place a restaurant fetch returns whose stored tag contains \<open>korean\<close>
  has the class HANSIK. On ASCII text, a tag that contains \<open>korean\<close> in any mix of upper
  and lower case contains it once it is lower-cased.
\<close>

theorem korean_tag_classified:
  "(subscript element (py ''tags'') = Some tags \<and>
    subscript tags (py ''cuisine'') = Some (JStr raw) \<and>
    str_in (py ''korean'') (lower raw) \<and>
    element_step lower (py ''restaurant'') cuisine_filter element = Some (Some p) \<longrightarrow>
      raw_cuisine p = JStr (lower raw) \<and> cuisine_type p = JStr HANSIK) \<and>
   (subscript element (py ''tags'') = Some tags \<and>
    subscript tags (py ''cuisine'') = Some (JStr raw) \<and>
    str_in (py ''korean'') (lower raw) \<and>
    subscript tags (py ''name'') = Some nm \<and>
    subscript element (py ''lat'') = Some ela \<and>
    subscript element (py ''lon'') = Some elo \<and>
    \<not> filtered_out cuisine_filter HANSIK \<longrightarrow>
      element_step lower (py ''restaurant'') cuisine_filter element =
        Some (Some \<lparr>name = nm, lat = ela, lng = elo, type = JStr (py ''restaurant''),
                    cuisine_type = JStr HANSIK, raw_cuisine = JStr (lower raw)\<rparr>)) \<and>
   (q \<in> set (fst (get_osm_places lower http (py ''restaurant'') la lo radius_m cuisine_filter)) \<and>
    raw_cuisine q = JStr c \<and> str_in (py ''korean'') c \<longrightarrow>
      cuisine_type q = JStr HANSIK) \<and>
   (str_in k raw' \<and> ascii_lower k = py ''korean'' \<longrightarrow>
      str_in (py ''korean'') (ascii_lower raw'))"
proof -
  have 1: "raw_cuisine p = JStr (lower raw) \<and> cuisine_type p = JStr HANSIK"
    if "subscript element (py ''tags'') = Some tags"
      "subscript tags (py ''cuisine'') = Some (JStr raw)"
      "str_in (py ''korean'') (lower raw)"
      "element_step lower (py ''restaurant'') cuisine_filter element = Some (Some p)"
    using element_step_cuisine [OF that(1,2,4)] place_type_korean_first [OF that(3)] by simp
  have 2: "element_step lower (py ''restaurant'') cuisine_filter element =
        Some (Some \<lparr>name = nm, lat = ela, lng = elo, type = JStr (py ''restaurant''),
                    cuisine_type = JStr HANSIK, raw_cuisine = JStr (lower raw)\<rparr>)"
    if "subscript element (py ''tags'') = Some tags"
      "subscript tags (py ''cuisine'') = Some (JStr raw)"
      "str_in (py ''korean'') (lower raw)"
      "subscript tags (py ''name'') = Some nm"
      "subscript element (py ''lat'') = Some ela"
      "subscript element (py ''lon'') = Some elo"
      "\<not> filtered_out cuisine_filter HANSIK"
  proof -
    have pt: "place_type (py ''restaurant'') (lower raw) = HANSIK"
      using place_type_korean_first [OF that(3)] .
    from that(7) pt have "\<not> (py ''restaurant'' = py ''restaurant'' \<and>
        filtered_out cuisine_filter (place_type (py ''restaurant'') (lower raw)))" by simp
    from element_step_builds [where lower = lower and category = "py ''restaurant''",
        OF that(1,2,4,5,6) this] pt
    show ?thesis by simp
  qed
  have 3: "cuisine_type q = JStr HANSIK"
    if "q \<in> set (fst (get_osm_places lower http (py ''restaurant'') la lo radius_m cuisine_filter))"
      "raw_cuisine q = JStr c" "str_in (py ''korean'') c"
  proof -
    from get_osm_places_members [OF that(1)] obtain e where
      "element_step lower (py ''restaurant'') cuisine_filter e = Some (Some q)" by blast
    from element_step_Some [OF this] that(2) have
      "cuisine_type q = JStr (place_type (py ''restaurant'') c)" by auto
    with place_type_korean_first [OF that(3)] show ?thesis by simp
  qed
  have 4: "str_in (py ''korean'') (ascii_lower raw')"
    if "str_in k raw'" "ascii_lower k = py ''korean''"
    using ascii_lower_str_in [OF that(1)] that(2) by simp
  from 1 2 3 4 show ?thesis by blast
qed

theorem korean_tag_classified_witness:
  "subscript (example_element ''Arirang'' ''Korean;Pizza'') (py ''tags'') =
     Some (JDict [(py ''name'', JStr (py ''Arirang'')),
                  (py ''cuisine'', JStr (py ''Korean;Pizza''))]) \<and>
   subscript (JDict [(py ''name'', JStr (py ''Arirang'')),
                     (py ''cuisine'', JStr (py ''Korean;Pizza''))]) (py ''cuisine'') =
     Some (JStr (py ''Korean;Pizza'')) \<and>
   str_in (py ''korean'') (ascii_lower (py ''Korean;Pizza'')) \<and>
   subscript (JDict [(py ''name'', JStr (py ''Arirang'')),
                     (py ''cuisine'', JStr (py ''Korean;Pizza''))]) (py ''name'') =
     Some (JStr (py ''Arirang'')) \<and>
   subscript (example_element ''Arirang'' ''Korean;Pizza'') (py ''lat'') = Some (JFloat 52) \<and>
   subscript (example_element ''Arirang'' ''Korean;Pizza'') (py ''lon'') = Some (JFloat 13) \<and>
   \<not> filtered_out (Some [HANSIK]) HANSIK \<and>
   element_step ascii_lower (py ''restaurant'') (Some [HANSIK])
     (example_element ''Arirang'' ''Korean;Pizza'') =
     Some (Some \<lparr>name = JStr (py ''Arirang''), lat = JFloat 52, lng = JFloat 13,
                 type = JStr (py ''restaurant''), cuisine_type = JStr HANSIK,
                 raw_cuisine = JStr (ascii_lower (py ''Korean;Pizza''))\<rparr>) \<and>
   raw_cuisine \<lparr>name = JStr (py ''Arirang''), lat = JFloat 52, lng = JFloat 13,
                type = JStr (py ''restaurant''), cuisine_type = JStr HANSIK,
                raw_cuisine = JStr (ascii_lower (py ''Korean;Pizza''))\<rparr> =
     JStr (ascii_lower (py ''Korean;Pizza'')) \<and>
   example_place ''restaurant'' ''Arirang'' HANSIK ''korean;pizza'' \<in>
     set (fst (get_osm_places ascii_lower (\<lambda>q. (Inr example_response :: unit + json))
                (py ''restaurant'') (JFloat 52) (JFloat 13) (JInt 3000) (Some [HANSIK]))) \<and>
   raw_cuisine (example_place ''restaurant'' ''Arirang'' HANSIK ''korean;pizza'') =
     JStr (py ''korean;pizza'') \<and>
   str_in (py ''korean'') (py ''korean;pizza'') \<and>
   cuisine_type (example_place ''restaurant'' ''Arirang'' HANSIK ''korean;pizza'') = JStr HANSIK \<and>
   str_in (py ''KoReAn'') (py ''bbq;KoReAn'') \<and>
   ascii_lower (py ''KoReAn'') = py ''korean'' \<and>
   str_in (py ''korean'') (ascii_lower (py ''bbq;KoReAn''))"
proof -
  let ?e = "example_element ''Arirang'' ''Korean;Pizza''"
  let ?t = "JDict [(py ''name'', JStr (py ''Arirang'')),
                   (py ''cuisine'', JStr (py ''Korean;Pizza''))]"
  let ?p = "\<lparr>name = JStr (py ''Arirang''), lat = JFloat 52, lng = JFloat 13,
             type = JStr (py ''restaurant''), cuisine_type = JStr HANSIK,
             raw_cuisine = JStr (ascii_lower (py ''Korean;Pizza''))\<rparr>"
  let ?q = "example_place ''restaurant'' ''Arirang'' HANSIK ''korean;pizza''"
  let ?http = "\<lambda>q::overpass_query. (Inr example_response :: unit + json)"
  have h1: "subscript ?e (py ''tags'') = Some ?t"
    by (simp add: example_element_def py_eq_iff)
  have h2: "subscript ?t (py ''cuisine'') = Some (JStr (py ''Korean;Pizza''))"
    by (simp add: py_eq_iff)
  have h3: "str_in (py ''korean'') (ascii_lower (py ''Korean;Pizza''))"
    by (simp add: py_def ascii_lower_def)
  have h4: "subscript ?t (py ''name'') = Some (JStr (py ''Arirang''))" by simp
  have h5: "subscript ?e (py ''lat'') = Some (JFloat 52)"
    by (simp add: example_element_def py_eq_iff)
  have h6: "subscript ?e (py ''lon'') = Some (JFloat 13)"
    by (simp add: example_element_def py_eq_iff)
  have h7: "\<not> filtered_out (Some [HANSIK]) HANSIK" by simp
  from overpass_tag_examples(1) obtain tag where "overpass_tag (py ''restaurant'') = Some tag"
    by blast
  from example_fetch [OF this, of ascii_lower example_response] example_restaurants_hansik
  have h8: "?q \<in> set (fst (get_osm_places ascii_lower ?http (py ''restaurant'')
                (JFloat 52) (JFloat 13) (JInt 3000) (Some [HANSIK])))"
    by simp
  have h9: "raw_cuisine ?q = JStr (py ''korean;pizza'')" by (simp add: example_place_def)
  have h10: "str_in (py ''korean'') (py ''korean;pizza'')" by (simp add: py_def)
  have h11: "str_in (py ''KoReAn'') (py ''bbq;KoReAn'')" by (simp add: py_def)
  have h12: "ascii_lower (py ''KoReAn'') = py ''korean''" by (simp add: py_def ascii_lower_def)
  note c = korean_tag_classified [of ?e ?t "py ''Korean;Pizza''" ascii_lower "Some [HANSIK]" ?p
      "JStr (py ''Arirang'')" "JFloat 52" "JFloat 13" ?q ?http "JFloat 52" "JFloat 13"
      "JInt 3000" "py ''korean;pizza''" "py ''KoReAn''" "py ''bbq;KoReAn''"]
  from c h1 h2 h3 h4 h5 h6 h7 have s:
    "element_step ascii_lower (py ''restaurant'') (Some [HANSIK]) ?e = Some (Some ?p)" by blast
  from c h1 h2 h3 s have r: "raw_cuisine ?p = JStr (ascii_lower (py ''Korean;Pizza''))" by blast
  from c h8 h9 h10 have t: "cuisine_type ?q = JStr HANSIK" by blast
  from c h11 h12 have u: "str_in (py ''korean'') (ascii_lower (py ''bbq;KoReAn''))" by blast
  from h1 h2 h3 h4 h5 h6 h7 s r h8 h9 h10 t h11 h12 u show ?thesis by blast
qed

text \<open>
  Claim C2. A filter that is \<open>None\<close>, empty or contains the sentinel JEONCHE (All) changes
  nothing in the result of a fetch; no filter changes the result of a fetch of another
  category than restaurant; and an active filter \<open>f\<close> leaves in a restaurant fetch only
  places whose class is in \<open>f\<close>: where the fetch without filter builds the list \<open>ps\<close>, the
  fetch with \<open>f\<close> builds exactly the places of \<open>ps\<close> whose class is in \<open>f\<close>, in their order.
\<close>

theorem cuisine_filter_contract:
  "(\<not> filter_active flt \<longrightarrow>
      get_osm_places lower http category la lo radius_m flt =
      get_osm_places lower http category la lo radius_m None) \<and>
   (category \<noteq> py ''restaurant'' \<longrightarrow>
      get_osm_places lower http category la lo radius_m flt =
      get_osm_places lower http category la lo radius_m None) \<and>
   (filter_active (Some f) \<longrightarrow>
      (\<forall>p \<in> set (fst (get_osm_places lower http (py ''restaurant'') la lo radius_m (Some f))).
         cuisine_type p \<in> JStr ` set f)) \<and>
   (filter_active (Some f) \<and>
    places_of_response lower (py ''restaurant'') None data = Some ps \<longrightarrow>
      places_of_response lower (py ''restaurant'') (Some f) data =
      Some (filter (\<lambda>p. cuisine_type p \<in> JStr ` set f) ps))"
  using get_osm_places_inactive [of flt lower http category la lo radius_m]
    get_osm_places_not_restaurant [of category lower http la lo radius_m flt]
    get_osm_places_in_filter [of f _ lower http la lo radius_m]
    places_of_response_filter [of f lower data ps]
  by blast

theorem cuisine_filter_contract_witness:
  "\<not> filter_active (Some [JEONCHE, HANSIK]) \<and>
   py ''hotel'' \<noteq> py ''restaurant'' \<and>
   filter_active (Some [HANSIK]) \<and>
   places_of_response ascii_lower (py ''restaurant'') None example_response =
     Some [example_place ''restaurant'' ''Arirang'' HANSIK ''korean;pizza'',
           example_place ''restaurant'' ''Luigi'' YANGSIK ''pizza''] \<and>
   places_of_response ascii_lower (py ''restaurant'') (Some [HANSIK]) example_response =
     Some [example_place ''restaurant'' ''Arirang'' HANSIK ''korean;pizza''] \<and>
   example_place ''restaurant'' ''Arirang'' HANSIK ''korean;pizza'' \<in>
     set (fst (get_osm_places ascii_lower (\<lambda>q. (Inr example_response :: unit + json))
                (py ''restaurant'') (JFloat 52) (JFloat 13) (JInt 3000) (Some [HANSIK]))) \<and>
   cuisine_type (example_place ''restaurant'' ''Arirang'' HANSIK ''korean;pizza'') \<in>
     JStr ` set [HANSIK] \<and>
   get_osm_places ascii_lower (\<lambda>q. (Inr example_response :: unit + json)) (py ''hotel'')
     (JFloat 52) (JFloat 13) (JInt 3000) (Some [JEONCHE, HANSIK]) =
   get_osm_places ascii_lower (\<lambda>q. (Inr example_response :: unit + json)) (py ''hotel'')
     (JFloat 52) (JFloat 13) (JInt 3000) None"
proof -
  let ?A = "example_place ''restaurant'' ''Arirang'' HANSIK ''korean;pizza''"
  let ?L = "example_place ''restaurant'' ''Luigi'' YANGSIK ''pizza''"
  let ?http = "\<lambda>q::overpass_query. (Inr example_response :: unit + json)"
  have h1: "\<not> filter_active (Some [JEONCHE, HANSIK])" by simp
  have h2: "py ''hotel'' \<noteq> py ''restaurant''" by (simp add: py_eq_iff)
  have h3: "filter_active (Some [HANSIK])"
    by (simp add: HANSIK_def JEONCHE_def)
  note h4 = example_restaurants
  note c = cuisine_filter_contract [of "Some [JEONCHE, HANSIK]" ascii_lower ?http "py ''hotel''"
      "JFloat 52" "JFloat 13" "JInt 3000" "[HANSIK]" example_response "[?A, ?L]"]
  have f: "filter (\<lambda>p. cuisine_type p \<in> JStr ` set [HANSIK]) [?A, ?L] = [?A]"
    using labels_distinct by (auto simp: example_place_def)
  from c h3 h4 f have c4:
    "places_of_response ascii_lower (py ''restaurant'') (Some [HANSIK]) example_response =
       Some [?A]" by simp
  from overpass_tag_examples(1) obtain tag where "overpass_tag (py ''restaurant'') = Some tag"
    by blast
  from example_fetch [OF this, of ascii_lower example_response] c4
  have m: "?A \<in> set (fst (get_osm_places ascii_lower ?http (py ''restaurant'')
                (JFloat 52) (JFloat 13) (JInt 3000) (Some [HANSIK])))"
    by simp
  from c h3 m have c3: "cuisine_type ?A \<in> JStr ` set [HANSIK]" by blast
  from c h1 have c1:
    "get_osm_places ascii_lower ?http (py ''hotel'') (JFloat 52) (JFloat 13) (JInt 3000)
       (Some [JEONCHE, HANSIK]) =
     get_osm_places ascii_lower ?http (py ''hotel'') (JFloat 52) (JFloat 13) (JInt 3000) None"
    by blast
  from h1 h2 h3 h4 c4 m c3 c1 show ?thesis by blast
qed

text \<open>
  Claim C5. When the call behind it raises, whatever the exception, the exchange rate
  is 1450.0, the weather is temperature 15.0 with weather code 0, and the list of places is
  empty; the value does not depend on the exception, so it is the same at every failure.
  The same values are returned when the call answers with a value that lacks the
  expected keys or, for the places, makes the loop raise.
\<close>

theorem fetchers_fall_back:
  "get_exchange_rate (Inl e) = JFloat 1450 \<and>
   get_weather (Inl e) = JDict [(py ''temperature'', JFloat 15), (py ''weathercode'', JInt 0)] \<and>
   fst (get_osm_places lower (\<lambda>q. Inl (cause q)) category la lo radius_m cuisine_filter) = [] \<and>
   get_exchange_rate (Inl e) = get_exchange_rate (Inl e') \<and>
   get_weather (Inl e) = get_weather (Inl e') \<and>
   fst (get_osm_places lower (\<lambda>q. Inl (cause q)) category la lo radius_m cuisine_filter) =
   fst (get_osm_places lower (\<lambda>q. Inl (cause' q)) category la lo radius_m cuisine_filter) \<and>
   (subscript data (py ''rates'') = None \<longrightarrow> get_exchange_rate (Inr data) = JFloat 1450) \<and>
   (subscript data (py ''rates'') = Some rates \<and> subscript rates (py ''KRW'') = None \<longrightarrow>
      get_exchange_rate (Inr data) = JFloat 1450) \<and>
   (subscript data (py ''current_weather'') = None \<longrightarrow>
      get_weather (Inr data) =
        JDict [(py ''temperature'', JFloat 15), (py ''weathercode'', JInt 0)]) \<and>
   (places_of_response lower category cuisine_filter data = None \<longrightarrow>
      fst (get_osm_places lower (\<lambda>q. Inr data) category la lo radius_m cuisine_filter) = [])"
  unfolding get_exchange_rate_def get_weather_def get_osm_places_def
  by (simp split: option.splits)

theorem fetchers_fall_back_witness:
  "subscript (JDict [(py ''error'', JStr (py ''quota''))]) (py ''rates'') = None \<and>
   get_exchange_rate (Inr (JDict [(py ''error'', JStr (py ''quota''))]) :: unit + json) =
     JFloat 1450 \<and>
   subscript (JDict [(py ''rates'', JDict [(py ''USD'', JFloat (11 / 10))])]) (py ''rates'') =
     Some (JDict [(py ''USD'', JFloat (11 / 10))]) \<and>
   subscript (JDict [(py ''USD'', JFloat (11 / 10))]) (py ''KRW'') = None \<and>
   get_exchange_rate
     (Inr (JDict [(py ''rates'', JDict [(py ''USD'', JFloat (11 / 10))])]) :: unit + json) =
     JFloat 1450 \<and>
   subscript (JList []) (py ''current_weather'') = None \<and>
   get_weather (Inr (JList []) :: unit + json) =
     JDict [(py ''temperature'', JFloat 15), (py ''weathercode'', JInt 0)] \<and>
   places_of_response ascii_lower (py ''hotel'') None
     (JDict [(py ''elements'', JList [JInt 1])]) = None \<and>
   fst (get_osm_places ascii_lower
          (\<lambda>q. (Inr (JDict [(py ''elements'', JList [JInt 1])]) :: unit + json))
          (py ''hotel'') (JFloat 52) (JFloat 13) (JInt 3000) None) = [] \<and>
   get_exchange_rate (Inl () :: unit + json) = JFloat 1450"
proof -
  have h1: "subscript (JDict [(py ''error'', JStr (py ''quota''))]) (py ''rates'') = None"
    by (simp add: py_eq_iff)
  have h2: "subscript (JDict [(py ''rates'', JDict [(py ''USD'', JFloat (11 / 10))])])
              (py ''rates'') = Some (JDict [(py ''USD'', JFloat (11 / 10))])"
    by simp
  have h3: "subscript (JDict [(py ''USD'', JFloat (11 / 10))]) (py ''KRW'') = None"
    by (simp add: py_eq_iff)
  have h4: "subscript (JList []) (py ''current_weather'') = None" by simp
  have h5: "places_of_response ascii_lower (py ''hotel'') None
     (JDict [(py ''elements'', JList [JInt 1])]) = None"
    by (simp add: places_of_response_def element_step_def)
  note a = fetchers_fall_back [where 'a = unit and 'b = unit and 'c = unit and 'd = unit, of "()" ascii_lower "\<lambda>q. ()" "py ''hotel''" "JFloat 52" "JFloat 13"
      "JInt 3000" None "()" "\<lambda>q. ()" "JDict [(py ''error'', JStr (py ''quota''))]"]
  note b = fetchers_fall_back [where 'a = unit and 'b = unit and 'c = unit and 'd = unit, of "()" ascii_lower "\<lambda>q. ()" "py ''hotel''" "JFloat 52" "JFloat 13"
      "JInt 3000" None "()" "\<lambda>q. ()"
      "JDict [(py ''rates'', JDict [(py ''USD'', JFloat (11 / 10))])]"
      "JDict [(py ''USD'', JFloat (11 / 10))]"]
  note c = fetchers_fall_back [where 'a = unit and 'b = unit and 'c = unit and 'd = unit, of "()" ascii_lower "\<lambda>q. ()" "py ''hotel''" "JFloat 52" "JFloat 13"
      "JInt 3000" None "()" "\<lambda>q. ()" "JList []"]
  note d = fetchers_fall_back [where 'a = unit and 'b = unit and 'c = unit and 'd = unit, of "()" ascii_lower "\<lambda>q. ()" "py ''hotel''" "JFloat 52" "JFloat 13"
      "JInt 3000" None "()" "\<lambda>q. ()" "JDict [(py ''elements'', JList [JInt 1])]"]
  from h1 h2 h3 h4 h5 a b c d show ?thesis by blast
qed

text \<open>
  Claim C9, as the code has it. A place of a hotel or tourism fetch (of any fetch that is
  not a restaurant fetch) carries in \<open>cuisine_type\<close> the fixed label GITA, which is not
  null and is none of the five classes; a place of a restaurant fetch carries one of the
  five classes. The field is never null: \<open>hotel_cuisine_type_not_null\<close> shows a place of
  a hotel fetch whose field is GITA.
\<close>

theorem cuisine_type_by_category:
  assumes "p \<in> set (fst (get_osm_places lower http category la lo radius_m cuisine_filter))"
  shows "(category \<noteq> py ''restaurant'' \<longrightarrow> cuisine_type p = JStr GITA) \<and>
         (category = py ''restaurant'' \<longrightarrow>
            cuisine_type p \<in> JStr ` {HANSIK, YANGSIK, ASIAN, CAFE, ILBAN_GITA}) \<and>
         JStr GITA \<notin> insert JNull (JStr ` {HANSIK, YANGSIK, ASIAN, CAFE, ILBAN_GITA})"
proof -
  from get_osm_places_members [OF assms] obtain e where
    "element_step lower category cuisine_filter e = Some (Some p)" by blast
  from element_step_Some [OF this] obtain c where
    c: "cuisine_type p = JStr (place_type category c)" by blast
  have "JStr GITA \<notin> insert JNull (JStr ` {HANSIK, YANGSIK, ASIAN, CAFE, ILBAN_GITA})"
    using labels_distinct by auto
  with c place_type_other [of category c] place_type_restaurant [of c] show ?thesis
    by auto
qed

theorem cuisine_type_by_category_witness:
  "example_place ''hotel'' ''Luigi'' GITA ''pizza'' \<in>
     set (fst (get_osm_places ascii_lower (\<lambda>q. (Inr example_response :: unit + json))
                (py ''hotel'') (JFloat 52) (JFloat 13) (JInt 3000) None)) \<and>
   py ''hotel'' \<noteq> py ''restaurant'' \<and>
   cuisine_type (example_place ''hotel'' ''Luigi'' GITA ''pizza'') = JStr GITA \<and>
   example_place ''restaurant'' ''Luigi'' YANGSIK ''pizza'' \<in>
     set (fst (get_osm_places ascii_lower (\<lambda>q. (Inr example_response :: unit + json))
                (py ''restaurant'') (JFloat 52) (JFloat 13) (JInt 3000) None)) \<and>
   cuisine_type (example_place ''restaurant'' ''Luigi'' YANGSIK ''pizza'') \<in>
     JStr ` {HANSIK, YANGSIK, ASIAN, CAFE, ILBAN_GITA}"
proof -
  let ?http = "\<lambda>q::overpass_query. (Inr example_response :: unit + json)"
  from overpass_tag_examples obtain t1 t2 where
    t: "overpass_tag (py ''restaurant'') = Some t1" "overpass_tag (py ''hotel'') = Some t2"
    by blast
  have m1: "example_place ''hotel'' ''Luigi'' GITA ''pizza'' \<in>
     set (fst (get_osm_places ascii_lower ?http (py ''hotel'') (JFloat 52) (JFloat 13)
                (JInt 3000) None))"
    using example_fetch [OF t(2), of ascii_lower example_response] example_hotels by simp
  have m2: "example_place ''restaurant'' ''Luigi'' YANGSIK ''pizza'' \<in>
     set (fst (get_osm_places ascii_lower ?http (py ''restaurant'') (JFloat 52) (JFloat 13)
                (JInt 3000) None))"
    using example_fetch [OF t(1), of ascii_lower example_response] example_restaurants by simp
  have h: "py ''hotel'' \<noteq> py ''restaurant''" by (simp add: py_eq_iff)
  from cuisine_type_by_category [OF m1] cuisine_type_by_category [OF m2] m1 m2 h
  show ?thesis by blast
qed

theorem hotel_cuisine_type_not_null:
  "example_place ''hotel'' ''Arirang'' GITA ''korean;pizza'' \<in>
     set (fst (get_osm_places ascii_lower (\<lambda>q. (Inr example_response :: unit + json))
                (py ''hotel'') (JFloat 52) (JFloat 13) (JInt 3000) None)) \<and>
   cuisine_type (example_place ''hotel'' ''Arirang'' GITA ''korean;pizza'') \<noteq> JNull"
proof -
  from overpass_tag_examples(2) obtain tag where "overpass_tag (py ''hotel'') = Some tag"
    by blast
  from example_fetch [OF this, of ascii_lower example_response] example_hotels
  show ?thesis by (simp add: example_place_def)
qed

section \<open>The crime statistics loader\<close>

text \<open>When the loader reaches its last line, each step before it has succeeded.\<close>

lemma process_crime_data_returns:
  assumes "process_crime_data df = Some (Some out)"
  obtains total_col others codes names where
    "total_cols (normalize_columns df) = total_col # others"
    "getitem_str (normalize_columns df) LOR_KEY = Some codes"
    "getitem_str (rename_columns (boolean_index (normalize_columns df)
        (str_endswith codes (py ''0000''))) total_col) DISTRICT = Some names"
    "select_columns
       (setitem (rename_columns (boolean_index (normalize_columns df)
          (str_endswith codes (py ''0000''))) total_col) DISTRICT
          (ObjectCol (map (map_option strip) names)))
       [DISTRICT, TOTAL_CRIME] = Some out"
  using assms unfolding process_crime_data_def
  by (auto simp: Let_def split: list.splits bind_splits)

lemma select_columns_index: "select_columns df keys = Some out \<Longrightarrow> index out = index df"
  unfolding select_columns_def by (auto split: if_splits)

lemma select_columns_subset:
  "select_columns df keys = Some out \<Longrightarrow> set (columns out) \<subseteq> set (columns df)"
  unfolding select_columns_def by (auto split: if_splits)

lemma getitem_str_Some:
  assumes "getitem_str df key = Some vs" and "(key, s) \<in> set (columns df)"
  shows "s = ObjectCol vs"
proof -
  from assms(1) have "filter (\<lambda>(c, s). c = key) (columns df) = [(key, ObjectCol vs)]"
    unfolding getitem_str_def
    by (auto split: list.splits series.splits dest: filter_eq_ConsD)
  moreover from assms(2) have "(key, s) \<in> set (filter (\<lambda>(c, s). c = key) (columns df))"
    by simp
  ultimately show ?thesis by simp
qed

lemma getitem_str_mem:
  assumes "getitem_str df key = Some vs"
  shows "(key, ObjectCol vs) \<in> set (columns df)"
proof -
  from assms have "filter (\<lambda>(c, s). c = key) (columns df) = [(key, ObjectCol vs)]"
    unfolding getitem_str_def
    by (auto split: list.splits series.splits dest: filter_eq_ConsD)
  then have "(key, ObjectCol vs) \<in> set (filter (\<lambda>(c, s). c = key) (columns df))" by simp
  then show ?thesis by simp
qed

text \<open>
  The loader reaches its last line whenever a total column is found, the key column is
  there once and holds strings, and so does the district column after the renaming.
\<close>

lemma process_crime_data_succeeds:
  assumes tc: "total_cols (normalize_columns df) = total_col # others"
    and codes: "getitem_str (normalize_columns df) LOR_KEY = Some codes"
    and names: "getitem_str (rename_columns (boolean_index (normalize_columns df)
        (str_endswith codes (py ''0000''))) total_col) DISTRICT = Some names"
  shows "\<exists>out. process_crime_data df = Some (Some out)"
proof -
  let ?dfr = "rename_columns (boolean_index (normalize_columns df)
        (str_endswith codes (py ''0000''))) total_col"
  let ?dfs = "setitem ?dfr DISTRICT (ObjectCol (map (map_option strip) names))"
  from tc have "total_col \<in> set (total_cols (normalize_columns df))" by simp
  then have "total_col \<in> fst ` set (columns (normalize_columns df))"
    unfolding total_cols_def by auto
  then have "TOTAL_CRIME \<in> fst ` set (columns ?dfr)"
    unfolding rename_columns_def boolean_index_def by (force simp: image_iff)
  then have t: "TOTAL_CRIME \<in> fst ` set (columns ?dfs)"
    unfolding setitem_def by (force simp: image_iff)
  from getitem_str_mem [OF names] have "DISTRICT \<in> fst ` set (columns ?dfr)"
    by (force simp: image_iff)
  then have d: "DISTRICT \<in> fst ` set (columns ?dfs)"
    unfolding setitem_def by (force simp: image_iff)
  from t d obtain out where "select_columns ?dfs [DISTRICT, TOTAL_CRIME] = Some out"
    unfolding select_columns_def by simp
  with tc codes names show ?thesis
    unfolding process_crime_data_def by (simp add: Let_def)
qed

text \<open>The mask is True exactly at the strings that end with the suffix.\<close>

lemma str_endswith_nth:
  "i < length vs \<Longrightarrow>
     str_endswith vs suffix ! i \<longleftrightarrow> (\<exists>s a. vs ! i = Some s \<and> s = a @ suffix)"
  unfolding str_endswith_def by (auto simp: endswith_iff split: option.splits)

text \<open>The loader on the example source.\<close>

lemma example_process:
  "process_crime_data example_crime_frame = Some (Some example_district_frame)"
  by (simp add: process_crime_data_def example_crime_frame_def normalize_columns_def
      total_cols_def getitem_str_def str_endswith_def endswith_def boolean_index_def
      select_def rename_columns_def setitem_def select_columns_def strip_def
      remove_newlines_def is_space_def LOR_KEY_def BEZEICHNUNG_def DISTRICT_def
      TOTAL_CRIME_def py_def Let_def example_district_frame_def)

lemma example_codes:
  "getitem_str (normalize_columns example_crime_frame) LOR_KEY =
     Some [Some (py ''010000''), Some (py ''011001'')]"
  by (simp add: example_crime_frame_def normalize_columns_def getitem_str_def strip_def
      remove_newlines_def is_space_def LOR_KEY_def BEZEICHNUNG_def py_def)

lemma example_keep:
  "str_endswith [Some (py ''010000''), Some (py ''011001'')] (py ''0000'') = [True, False]"
  by (simp add: str_endswith_def endswith_def py_def)

text \<open>
  Claim C3. When the loader returns the frame of its last line, the frame has exactly
  the rows of the source whose region code is a string that ends with \<open>0000\<close>: its row
  labels are those of the source under that mask, and each of its columns is a column of
  the source under that mask (the district names stripped). On the source with the codes
  \<open>010000\<close> and \<open>011001\<close> the row of \<open>010000\<close> is returned and the row of \<open>011001\<close> is not.
\<close>

theorem district_rows_retained:
  assumes "process_crime_data df = Some (Some out)"
  shows "\<exists>codes. getitem_str (normalize_columns df) LOR_KEY = Some codes \<and>
           index out = select (str_endswith codes (py ''0000'')) (index df) \<and>
           (\<forall>(c, s) \<in> set (columns out). \<exists>(c0, s0) \<in> set (columns df).
              s = series_select (str_endswith codes (py ''0000'')) s0 \<or>
              (\<exists>vs. series_select (str_endswith codes (py ''0000'')) s0 = ObjectCol vs \<and>
                    s = ObjectCol (map (map_option strip) vs))) \<and>
           load_and_process_crime_data (Inr df) = (out, [])"
proof -
  from assms obtain total_col others codes names where
    codes: "getitem_str (normalize_columns df) LOR_KEY = Some codes" and
    names: "getitem_str (rename_columns (boolean_index (normalize_columns df)
        (str_endswith codes (py ''0000''))) total_col) DISTRICT = Some names" and
    out: "select_columns
       (setitem (rename_columns (boolean_index (normalize_columns df)
          (str_endswith codes (py ''0000''))) total_col) DISTRICT
          (ObjectCol (map (map_option strip) names)))
       [DISTRICT, TOTAL_CRIME] = Some out"
    by (rule process_crime_data_returns)
  let ?keep = "str_endswith codes (py ''0000'')"
  let ?dfr = "rename_columns (boolean_index (normalize_columns df) ?keep) total_col"
  have idx: "index out = select ?keep (index df)"
    using select_columns_index [OF out]
    by (simp add: setitem_def rename_columns_def boolean_index_def normalize_columns_def)
  have cols: "\<exists>(c0, s0) \<in> set (columns df).
              s = series_select ?keep s0 \<or>
              (\<exists>vs. series_select ?keep s0 = ObjectCol vs \<and>
                    s = ObjectCol (map (map_option strip) vs))"
    if "(c, s) \<in> set (columns out)" for c s
  proof -
    from that select_columns_subset [OF out] obtain s' where
      s': "(c, s') \<in> set (columns ?dfr)" and
      s: "s = (if c = DISTRICT then ObjectCol (map (map_option strip) names) else s')"
      by (auto simp: setitem_def)
    from s' obtain c0 s0 where c0: "(c0, s0) \<in> set (columns df)" and
      sel: "s' = series_select ?keep s0"
      by (auto simp: rename_columns_def boolean_index_def normalize_columns_def)
    show ?thesis
    proof (cases "c = DISTRICT")
      case True
      with s' getitem_str_Some [OF names] have "s' = ObjectCol names" by simp
      with True s sel have "series_select ?keep s0 = ObjectCol names \<and>
          s = ObjectCol (map (map_option strip) names)" by simp
      with c0 show ?thesis by blast
    next
      case False
      with s sel have "s = series_select ?keep s0" by simp
      with c0 show ?thesis by blast
    qed
  qed
  have "load_and_process_crime_data (Inr df) = (out, [])"
    using assms by (simp add: load_and_process_crime_data_def)
  with codes idx cols show ?thesis by blast
qed

theorem district_rows_retained_witness:
  "process_crime_data example_crime_frame = Some (Some example_district_frame) \<and>
   getitem_str (normalize_columns example_crime_frame) LOR_KEY =
     Some [Some (py ''010000''), Some (py ''011001'')] \<and>
   str_endswith [Some (py ''010000''), Some (py ''011001'')] (py ''0000'') = [True, False] \<and>
   index example_crime_frame = [0, 1] \<and>
   index example_district_frame = [0] \<and>
   load_and_process_crime_data (Inr example_crime_frame) = (example_district_frame, [])"
proof -
  from district_rows_retained [OF example_process]
  have "load_and_process_crime_data (Inr example_crime_frame) = (example_district_frame, [])"
    by blast
  with example_process example_codes example_keep show ?thesis
    by (simp add: example_crime_frame_def example_district_frame_def)
qed

lemma process_crime_data_no_total:
  assumes "\<not> list_ex (\<lambda>c. str_in (py ''Straftaten'') (strip (remove_newlines c)) \<and>
                        str_in (py ''insgesamt'') (strip (remove_newlines c)))
              (map fst (columns df))"
  shows "process_crime_data df = Some None"
proof -
  from assms have "total_cols (normalize_columns df) = []"
    unfolding total_cols_def normalize_columns_def
    by (auto simp: filter_empty_conv list_ex_iff)
  then show ?thesis by (simp add: process_crime_data_def)
qed

text \<open>
  Claim C4. The loader returns the empty frame when \<open>read_csv\<close> raises (a missing or
  unparsable source), when no header, with its line breaks removed and stripped, contains
  both \<open>Straftaten\<close> and \<open>insgesamt\<close>, and when any later step raises. In every case it
  returns a frame: the empty one, or the one its last line builds.
\<close>

theorem crime_loader_fails_soft:
  "load_and_process_crime_data (Inl e) = (empty_frame, []) \<and>
   (\<not> list_ex (\<lambda>c. str_in (py ''Straftaten'') (strip (remove_newlines c)) \<and>
                    str_in (py ''insgesamt'') (strip (remove_newlines c)))
          (map fst (columns df)) \<longrightarrow>
      load_and_process_crime_data (Inr df) = (empty_frame, [NO_TOTAL_COLUMN])) \<and>
   (process_crime_data df' = None \<longrightarrow>
      load_and_process_crime_data (Inr df') = (empty_frame, [])) \<and>
   (fst (load_and_process_crime_data src) = empty_frame \<or>
    (\<exists>df'' out. src = Inr df'' \<and> process_crime_data df'' = Some (Some out) \<and>
       load_and_process_crime_data src = (out, [])))"
proof -
  have 1: "load_and_process_crime_data (Inl e) = (empty_frame, [])"
    by (simp add: load_and_process_crime_data_def)
  have 2: "load_and_process_crime_data (Inr df) = (empty_frame, [NO_TOTAL_COLUMN])"
    if "\<not> list_ex (\<lambda>c. str_in (py ''Straftaten'') (strip (remove_newlines c)) \<and>
                    str_in (py ''insgesamt'') (strip (remove_newlines c)))
          (map fst (columns df))"
    using process_crime_data_no_total [OF that]
    by (simp add: load_and_process_crime_data_def)
  have 3: "load_and_process_crime_data (Inr df') = (empty_frame, [])"
    if "process_crime_data df' = None"
    using that by (simp add: load_and_process_crime_data_def)
  have 4: "fst (load_and_process_crime_data src) = empty_frame \<or>
    (\<exists>df'' out. src = Inr df'' \<and> process_crime_data df'' = Some (Some out) \<and>
       load_and_process_crime_data src = (out, []))"
    by (cases src) (auto simp: load_and_process_crime_data_def split: option.splits)
  from 1 2 3 4 show ?thesis by blast
qed

theorem crime_loader_fails_soft_witness:
  "\<not> list_ex (\<lambda>c. str_in (py ''Straftaten'') (strip (remove_newlines c)) \<and>
                  str_in (py ''insgesamt'') (strip (remove_newlines c)))
        (map fst (columns (example_crime_frame\<lparr>columns := take 2 (columns example_crime_frame)\<rparr>))) \<and>
   load_and_process_crime_data
     (Inr (example_crime_frame\<lparr>columns := take 2 (columns example_crime_frame)\<rparr>) :: unit + frame) =
     (empty_frame, [NO_TOTAL_COLUMN]) \<and>
   process_crime_data (example_crime_frame\<lparr>columns := tl (columns example_crime_frame)\<rparr>) = None \<and>
   load_and_process_crime_data
     (Inr (example_crime_frame\<lparr>columns := tl (columns example_crime_frame)\<rparr>) :: unit + frame) =
     (empty_frame, []) \<and>
   load_and_process_crime_data (Inl () :: unit + frame) = (empty_frame, [])"
proof -
  let ?a = "example_crime_frame\<lparr>columns := take 2 (columns example_crime_frame)\<rparr>"
  let ?b = "example_crime_frame\<lparr>columns := tl (columns example_crime_frame)\<rparr>"
  have h1: "\<not> list_ex (\<lambda>c. str_in (py ''Straftaten'') (strip (remove_newlines c)) \<and>
                  str_in (py ''insgesamt'') (strip (remove_newlines c)))
        (map fst (columns ?a))"
    by (simp add: example_crime_frame_def strip_def remove_newlines_def is_space_def
        LOR_KEY_def BEZEICHNUNG_def py_def)
  have h2: "process_crime_data ?b = None"
    by (simp add: process_crime_data_def example_crime_frame_def normalize_columns_def
      total_cols_def getitem_str_def strip_def remove_newlines_def is_space_def
      LOR_KEY_def BEZEICHNUNG_def py_def Let_def)
  from h1 h2 crime_loader_fails_soft [of "()" ?a ?b "Inl ()"] show ?thesis by blast
qed

section \<open>The session state\<close>

lemma delete_button_eq:
  "delete_button pressed i msgs =
     (if i \<le> pressed \<and> pressed < i + length msgs then Some pressed else None)"
  by (induction msgs arbitrary: i) auto

text \<open>
  Claim C7. A new recommendation is put at index 0 and every earlier one moves one
  position back; after two additions the second is at index 0 and the first at index 1.
  The rest of the session state stays as it is.
\<close>

theorem add_recommendation_front:
  "recommendations (add_recommendation st p d) = \<lparr>place = p, desc = d\<rparr> # recommendations st \<and>
   recommendations (add_recommendation st p d) ! 0 = \<lparr>place = p, desc = d\<rparr> \<and>
   (\<forall>i < length (recommendations st).
      recommendations (add_recommendation st p d) ! Suc i = recommendations st ! i) \<and>
   recommendations (add_recommendation (add_recommendation st p d) p' d') ! 0 =
     \<lparr>place = p', desc = d'\<rparr> \<and>
   recommendations (add_recommendation (add_recommendation st p d) p' d') ! 1 =
     \<lparr>place = p, desc = d\<rparr> \<and>
   reviews (add_recommendation st p d) = reviews st \<and>
   messages (add_recommendation st p d) = messages st"
  by (simp add: add_recommendation_def list_insert_def)

theorem add_recommendation_front_witness:
  "0 < length (recommendations example_state) \<and>
   recommendations (add_recommendation example_state (py ''Mustafa'') (py ''kebab'')) ! Suc 0 =
     recommendations example_state ! 0 \<and>
   recommendations (add_recommendation example_state (py ''Mustafa'') (py ''kebab'')) =
     [\<lparr>place = py ''Mustafa'', desc = py ''kebab''\<rparr>,
      \<lparr>place = py ''Curry 36'', desc = py ''cheap''\<rparr>]"
proof -
  have h: "0 < length (recommendations example_state)" by (simp add: example_state_def)
  have r: "recommendations example_state = [\<lparr>place = py ''Curry 36'', desc = py ''cheap''\<rparr>]"
    by (simp add: example_state_def)
  from add_recommendation_front [of example_state "py ''Mustafa''" "py ''kebab''"] h r
  show ?thesis by simp
qed

text \<open>
  Claim C8. Where the place has a review list and the position of the pressed delete
  button is out of its range, the handler leaves the session state as it is and raises
  nothing: no button of the loop has that position.
\<close>

theorem delete_review_out_of_range:
  "reviews st sel_place = Some msgs \<Longrightarrow> length msgs \<le> pressed \<Longrightarrow>
     delete_review st sel_place pressed = Some st"
  unfolding delete_review_def by (simp add: delete_button_eq)

theorem delete_review_out_of_range_witness:
  "reviews example_state (py ''Mauerpark'') = Some [py ''nice'', py ''busy''] \<and>
   length [py ''nice'', py ''busy''] \<le> 2 \<and>
   delete_review example_state (py ''Mauerpark'') 2 = Some example_state"
proof -
  have h: "reviews example_state (py ''Mauerpark'') = Some [py ''nice'', py ''busy'']"
    by (simp add: example_state_def)
  from h delete_review_out_of_range [OF h, of 2] show ?thesis by simp
qed

text \<open>Within the range the review at that position is removed; the handler never raises.\<close>

lemma delete_review_in_range:
  "reviews st sel_place = Some msgs \<Longrightarrow> pressed < length msgs \<Longrightarrow>
     delete_review st sel_place pressed =
       Some (st\<lparr>reviews := (reviews st)(sel_place \<mapsto> take pressed msgs @ drop (Suc pressed) msgs)\<rparr>)"
  unfolding delete_review_def by (auto simp: delete_button_eq list_del_def)

lemma delete_review_no_error:
  "reviews st sel_place = Some msgs \<Longrightarrow> \<exists>st'. delete_review st sel_place pressed = Some st'"
  unfolding delete_review_def by (auto simp: delete_button_eq list_del_def)

end
